theory Spec2Isabelle
  imports Main
begin

section \<open>Python strings\<close>

text \<open>
  A Python \<open>str\<close> is a sequence of Unicode code points.  The service strips the bullet
  U+2022 and writes the dashes U+2013 and U+2014, so a string is modelled as the list of
  its code points (natural numbers), not as a list of bytes.  \<open>ascii\<close> turns an ASCII
  literal into that representation.
\<close>

type_synonym pystr = "nat list"

definition ascii :: "string \<Rightarrow> pystr" where
  "ascii s = map of_char s"

text \<open>\<open>sep.join(xs)\<close>.\<close>

fun str_join :: "pystr \<Rightarrow> pystr list \<Rightarrow> pystr" where
  "str_join sep [] = []"
| "str_join sep [x] = x"
| "str_join sep (x # y # ys) = x @ sep @ str_join sep (y # ys)"

text \<open>\<open>s.split(c)\<close> for a one-character separator: the pieces between the separators,
  empty pieces kept, so the result is never the empty list.\<close>

fun split_on :: "nat \<Rightarrow> pystr \<Rightarrow> pystr list" where
  "split_on c [] = [[]]"
| "split_on c (x # xs) =
     (if x = c then [] # split_on c xs
      else (case split_on c xs of
              [] \<Rightarrow> [[x]]
            | l # ls \<Rightarrow> (x # l) # ls))"

text \<open>\<open>s.strip(chars)\<close>: every leading and every trailing character that occurs in
  \<open>chars\<close> is removed.\<close>

definition strip_chars :: "pystr \<Rightarrow> pystr \<Rightarrow> pystr" where
  "strip_chars chars s =
     rev (dropWhile (\<lambda>c. c \<in> set chars) (rev (dropWhile (\<lambda>c. c \<in> set chars) s)))"

text \<open>\<open>str.isspace\<close> on one code point: the characters Python's \<open>strip()\<close> without
  argument removes.\<close>

definition py_isspace :: "nat \<Rightarrow> bool" where
  "py_isspace c \<longleftrightarrow>
     (9 \<le> c \<and> c \<le> 13) \<or> (28 \<le> c \<and> c \<le> 32) \<or> c = 133 \<or> c = 160 \<or> c = 5760
     \<or> (8192 \<le> c \<and> c \<le> 8202) \<or> c = 8232 \<or> c = 8233 \<or> c = 8239 \<or> c = 8287
     \<or> c = 12288"

definition strip_ws :: "pystr \<Rightarrow> pystr" where
  "strip_ws s = rev (dropWhile py_isspace (rev (dropWhile py_isspace s)))"

text \<open>Decimal digits of a natural number, and \<open>str(n)\<close> for an \<open>int\<close>.\<close>

fun dec_nat :: "nat \<Rightarrow> pystr" where
  "dec_nat n = (if n < 10 then [48 + n] else dec_nat (n div 10) @ [48 + n mod 10])"

declare dec_nat.simps [simp del]

definition str_int :: "int \<Rightarrow> pystr" where
  "str_int i = (if i < 0 then 45 # dec_nat (nat (- i)) else dec_nat (nat i))"

section \<open>Values of the provider's JSON responses\<close>

text \<open>
  The news client returns the provider's JSON document as Python data: \<open>None\<close>,
  \<open>bool\<close>, \<open>int\<close>, \<open>str\<close>, \<open>list\<close> and \<open>dict\<close> with string keys.  A dict is
  an association list whose keys are distinct; \<open>map_of\<close> reads it.  Floating-point
  numbers are not modelled.
\<close>

datatype json =
    JNull
  | JBool bool
  | JInt int
  | JStr pystr
  | JList "json list"
  | JDict "(pystr \<times> json) list"

text \<open>What the news client can raise instead of returning: \<open>NewsAPIException\<close>, which
  carries the provider's JSON document (the client raises it when the provider answers
  under an HTTP error status), or any other exception, with its message.\<close>

datatype client_exn =
    NewsAPIException json
  | OtherException pystr

datatype error =
    HTTPException (status_code: nat) (detail: pystr)
  | RequestValidationError "string list"
  | AttributeError
  | TypeError
  | ClientError client_exn

text \<open>The status the framework answers with: an \<open>HTTPException\<close> carries its own, a
  request that fails validation is answered 422, any other exception 500.\<close>

fun http_status :: "error \<Rightarrow> nat" where
  "http_status (HTTPException s d) = s"
| "http_status (RequestValidationError fs) = 422"
| "http_status AttributeError = 500"
| "http_status TypeError = 500"
| "http_status (ClientError m) = 500"

text \<open>\<open>x.get(k, d)\<close>: only a dict has the method.\<close>

fun dict_get :: "json \<Rightarrow> pystr \<Rightarrow> json \<Rightarrow> error + json" where
  "dict_get (JDict kvs) k d = Inr (case map_of kvs k of None \<Rightarrow> d | Some v \<Rightarrow> v)"
| "dict_get _ k d = Inl AttributeError"

text \<open>Truth value of a Python object, as \<open>if x\<close>, \<open>not x\<close> and \<open>x or y\<close> test it.\<close>

fun truthy :: "json \<Rightarrow> bool" where
  "truthy JNull = False"
| "truthy (JBool b) = b"
| "truthy (JInt i) = (i \<noteq> 0)"
| "truthy (JStr s) = (s \<noteq> [])"
| "truthy (JList xs) = (xs \<noteq> [])"
| "truthy (JDict kvs) = (kvs \<noteq> [])"

text \<open>
  \<open>repr(x)\<close> and \<open>str(x)\<close>.  The quoting and escaping of \<open>repr\<close> on a \<open>str\<close>
  depends on the Unicode database; it is the parameter \<open>rs\<close>.
\<close>

fun py_repr :: "(pystr \<Rightarrow> pystr) \<Rightarrow> json \<Rightarrow> pystr" where
  "py_repr rs JNull = ascii ''None''"
| "py_repr rs (JBool b) = (if b then ascii ''True'' else ascii ''False'')"
| "py_repr rs (JInt i) = str_int i"
| "py_repr rs (JStr s) = rs s"
| "py_repr rs (JList xs) =
     ascii ''['' @ str_join (ascii '', '') (map (py_repr rs) xs) @ ascii '']''"
| "py_repr rs (JDict kvs) =
     ascii ''{'' @ str_join (ascii '', '')
        (map (\<lambda>kv. rs (fst kv) @ ascii '': '' @ py_repr rs (snd kv)) kvs) @ ascii ''}''"

fun py_str :: "(pystr \<Rightarrow> pystr) \<Rightarrow> json \<Rightarrow> pystr" where
  "py_str rs (JStr s) = s"
| "py_str rs v = py_repr rs v"

section \<open>Request and response schemas\<close>

record InvestorProfile =
  risiko :: "pystr option"
  horizon_bulan :: "int option"
  fokus :: "pystr option"

record AnalyzeRequest =
  pertanyaan :: pystr
  tickers :: "pystr list option"
  kata_kunci :: "pystr option"
  hari_kebelakang :: int
  bahasa :: pystr
  profil :: "InvestorProfile option"

record NewsQuery =
  nq_q :: pystr
  dari :: "pystr option"
  sampai :: "pystr option"
  nq_bahasa :: pystr
  halaman :: int

text \<open>
  The request bodies as they arrive, before the schema is applied.  \<open>None\<close> is a key the
  body leaves out.  Values of the wrong JSON type are outside this model: the fields
  already have the declared types.
\<close>

record AnalyzeBody =
  pertanyaan_in :: "pystr option"
  tickers_in :: "pystr list option"
  kata_kunci_in :: "pystr option"
  hari_kebelakang_in :: "int option"
  bahasa_in :: "pystr option"
  profil_in :: "InvestorProfile option"

record NewsBody =
  q_in :: "pystr option"
  dari_in :: "pystr option"
  sampai_in :: "pystr option"
  nq_bahasa_in :: "pystr option"
  halaman_in :: "int option"

text \<open>
  The declarations of the schema classes, read as the validation library applies them:
  \<open>Field(...)\<close> and a field without default are required, \<open>default=\<close> fills a field the
  body leaves out, \<open>ge\<close> and \<open>le\<close> are inclusive bounds.  The library reports every
  violated field; the result here is the list of their names.
\<close>

definition validate_InvestorProfile :: "InvestorProfile \<Rightarrow> string list" where
  "validate_InvestorProfile p =
     (case horizon_bulan p of
        None \<Rightarrow> []
      | Some h \<Rightarrow> if 1 \<le> h then [] else [''profil.horizon_bulan''])"

definition validate_AnalyzeRequest :: "AnalyzeBody \<Rightarrow> error + AnalyzeRequest" where
  "validate_AnalyzeRequest b =
     (let errs =
            (case pertanyaan_in b of None \<Rightarrow> [''pertanyaan''] | Some x \<Rightarrow> [])
          @ (case hari_kebelakang_in b of
               None \<Rightarrow> []
             | Some d \<Rightarrow> if 1 \<le> d \<and> d \<le> 30 then [] else [''hari_kebelakang''])
          @ (case profil_in b of None \<Rightarrow> [] | Some p \<Rightarrow> validate_InvestorProfile p)
      in case (errs, pertanyaan_in b) of
           ([], Some x) \<Rightarrow>
             Inr \<lparr> pertanyaan = x,
                   tickers = tickers_in b,
                   kata_kunci = kata_kunci_in b,
                   hari_kebelakang = (case hari_kebelakang_in b of None \<Rightarrow> 7 | Some d \<Rightarrow> d),
                   bahasa = (case bahasa_in b of None \<Rightarrow> ascii ''id'' | Some l \<Rightarrow> l),
                   profil = profil_in b \<rparr>
         | _ \<Rightarrow> Inl (RequestValidationError errs))"

definition validate_NewsQuery :: "NewsBody \<Rightarrow> error + NewsQuery" where
  "validate_NewsQuery b =
     (let errs =
            (case q_in b of None \<Rightarrow> [''q''] | Some x \<Rightarrow> [])
          @ (case halaman_in b of
               None \<Rightarrow> []
             | Some n \<Rightarrow> if 1 \<le> n \<and> n \<le> 5 then [] else [''halaman''])
      in case (errs, q_in b) of
           ([], Some x) \<Rightarrow>
             Inr \<lparr> nq_q = x,
                   dari = dari_in b,
                   sampai = sampai_in b,
                   nq_bahasa = (case nq_bahasa_in b of None \<Rightarrow> ascii ''id'' | Some l \<Rightarrow> l),
                   halaman = (case halaman_in b of None \<Rightarrow> 1 | Some n \<Rightarrow> n) \<rparr>
         | _ \<Rightarrow> Inl (RequestValidationError errs))"

text \<open>The normalized article: the dict with the five keys that \<open>fetch_news\<close> and
  \<open>news\<close> build.  Each value is whatever the provider sent, \<open>None\<close> included.\<close>

record NewsArticle =
  judul :: json
  sumber :: json
  url :: json
  publishedAt :: json
  ringkas :: json

record AnalyzeResponse =
  resp_query :: pystr
  resp_news_query :: pystr
  resp_articles_count :: nat
  resp_answer :: pystr
  resp_disclaimer :: pystr

record NewsResponse =
  resp_total :: json
  resp_articles :: "NewsArticle list"

section \<open>The two providers\<close>

text \<open>The keyword arguments of \<open>newsapi.get_everything\<close>; \<open>None\<close> is an argument that
  is not passed.\<close>

record news_params =
  np_q :: pystr
  np_language :: pystr
  np_from_param :: "pystr option"
  np_to :: "pystr option"
  np_sort_by :: pystr
  np_page :: int
  np_page_size :: int

datatype part = TextPart (part_text: pystr)

datatype gen_input = Parts "part list" | Prompt pystr

datatype call = NewsCall news_params | GenCall gen_input

text \<open>
  What a handler reads from outside: the date of today (a day number) and its
  \<open>%Y-%m-%d\<close> rendering, \<open>repr\<close> on strings, the news client (\<open>Inl x\<close>: the client
  raised \<open>x\<close>) and the model (\<open>Inl e\<close>: the call or \<open>resp.text\<close> raised, \<open>e\<close> is
  \<open>str\<close> of the exception).  Every handler returns the outbound calls it made, in
  order, next to its result.
\<close>

record env =
  repr_str :: "pystr \<Rightarrow> pystr"
  date_today :: int
  strftime_ymd :: "int \<Rightarrow> pystr"
  get_everything :: "news_params \<Rightarrow> client_exn + json"
  generate_content :: "gen_input \<Rightarrow> pystr + pystr"

section \<open>Utilities\<close>

text \<open>Iterating a Python object in a \<open>for\<close>: a list gives its elements, a string its
  characters, a dict its keys; \<open>None\<close>, \<open>bool\<close> and \<open>int\<close> raise \<open>TypeError\<close>.\<close>

fun py_iter :: "json \<Rightarrow> error + json list" where
  "py_iter (JList xs) = Inr xs"
| "py_iter (JStr s) = Inr (map (\<lambda>c. JStr [c]) s)"
| "py_iter (JDict kvs) = Inr (map (\<lambda>kv. JStr (fst kv)) kvs)"
| "py_iter _ = Inl TypeError"

text \<open>The dict display of \<open>fetch_news\<close> and \<open>news\<close>, for one provider article
  \<open>a\<close>; the five values are evaluated in the order written.\<close>

definition normalize_article :: "json \<Rightarrow> error + NewsArticle" where
  "normalize_article a =
     (case dict_get a (ascii ''title'') JNull of Inl e \<Rightarrow> Inl e | Inr v_title \<Rightarrow>
      case dict_get a (ascii ''source'') (JDict []) of Inl e \<Rightarrow> Inl e | Inr v_source \<Rightarrow>
      case dict_get v_source (ascii ''name'') JNull of Inl e \<Rightarrow> Inl e | Inr v_name \<Rightarrow>
      case dict_get a (ascii ''url'') JNull of Inl e \<Rightarrow> Inl e | Inr v_url \<Rightarrow>
      case dict_get a (ascii ''publishedAt'') JNull of Inl e \<Rightarrow> Inl e | Inr v_when \<Rightarrow>
      case dict_get a (ascii ''description'') JNull of Inl e \<Rightarrow> Inl e | Inr v_desc \<Rightarrow>
        Inr \<lparr> judul = v_title, sumber = v_name, url = v_url,
              publishedAt = v_when, ringkas = v_desc \<rparr>)"

text \<open>The list comprehension over the articles: the first article that raises ends it.\<close>

fun normalize_each :: "json list \<Rightarrow> error + NewsArticle list" where
  "normalize_each [] = Inr []"
| "normalize_each (a # rest) =
     (case normalize_article a of
        Inl e \<Rightarrow> Inl e
      | Inr x \<Rightarrow> (case normalize_each rest of Inl e \<Rightarrow> Inl e | Inr xs \<Rightarrow> Inr (x # xs)))"

text \<open>\<open>[... for a in res.get("articles", [])]\<close> on a response \<open>res\<close>.\<close>

definition normalize_articles :: "json \<Rightarrow> error + NewsArticle list" where
  "normalize_articles res =
     (case dict_get res (ascii ''articles'') (JList []) of Inl e \<Rightarrow> Inl e | Inr v \<Rightarrow>
      case py_iter v of Inl e \<Rightarrow> Inl e | Inr items \<Rightarrow> normalize_each items)"

text \<open>The check of the provider's status, shared by \<open>fetch_news\<close> and \<open>news\<close>:
  \<open>if res.get("status") != "ok": raise HTTPException(502, f"Gagal memuat berita: {res}")\<close>.\<close>

definition check_status :: "(pystr \<Rightarrow> pystr) \<Rightarrow> json \<Rightarrow> error + unit" where
  "check_status rs res =
     (case dict_get res (ascii ''status'') JNull of Inl e \<Rightarrow> Inl e | Inr st \<Rightarrow>
      if st \<noteq> JStr (ascii ''ok'')
      then Inl (HTTPException 502 (ascii ''Gagal memuat berita: '' @ py_str rs res))
      else Inr ())"

definition fetch_news_params :: "env \<Rightarrow> pystr \<Rightarrow> pystr \<Rightarrow> int \<Rightarrow> int \<Rightarrow> news_params" where
  "fetch_news_params ev qs language from_days page_size =
     (let today = date_today ev;
          frm = today - from_days
      in \<lparr> np_q = qs,
           np_language = language,
           np_from_param = Some (strftime_ymd ev frm),
           np_to = Some (strftime_ymd ev today),
           np_sort_by = ascii ''publishedAt'',
           np_page = 1,
           np_page_size = page_size \<rparr>)"

definition fetch_news ::
  "env \<Rightarrow> pystr \<Rightarrow> pystr \<Rightarrow> int \<Rightarrow> int \<Rightarrow> call list \<times> (error + NewsArticle list)" where
  "fetch_news ev qs language from_days page_size =
     (let ps = fetch_news_params ev qs language from_days page_size
      in ([NewsCall ps],
          case get_everything ev ps of Inl m \<Rightarrow> Inl (ClientError m) | Inr res \<Rightarrow>
          case check_status (repr_str ev) res of Inl e \<Rightarrow> Inl e | Inr u \<Rightarrow>
            normalize_articles res))"

text \<open>One entry of the news context: the f-string of \<open>build_news_context\<close> for the
  article \<open>a\<close> at number \<open>i\<close>.  10 is the newline, 8212 the dash U+2014.\<close>

definition news_entry :: "(pystr \<Rightarrow> pystr) \<Rightarrow> nat \<Rightarrow> NewsArticle \<Rightarrow> pystr" where
  "news_entry rs i a =
     (let when = publishedAt a
      in dec_nat i @ ascii ''. ['' @ py_str rs (judul a) @ ascii '']('' @ py_str rs (url a)
         @ ascii '') '' @ [8212] @ ascii '' '' @ py_str rs (sumber a)
         @ ascii '' '' @ [8212] @ ascii '' '' @ py_str rs when
         @ [10] @ ascii ''   Ringkas: ''
         @ (if truthy (ringkas a) then py_str rs (ringkas a) else ascii ''-''))"

text \<open>The loop \<open>for i, a in enumerate(articles, 1): lines.append(...)\<close>.\<close>

fun append_entries ::
  "(pystr \<Rightarrow> pystr) \<Rightarrow> nat \<Rightarrow> NewsArticle list \<Rightarrow> pystr list \<Rightarrow> pystr list" where
  "append_entries rs i [] lines = lines"
| "append_entries rs i (a # rest) lines =
     append_entries rs (Suc i) rest (lines @ [news_entry rs i a])"

definition build_news_context :: "(pystr \<Rightarrow> pystr) \<Rightarrow> NewsArticle list \<Rightarrow> pystr" where
  "build_news_context rs arts =
     (if arts = []
      then ascii
        ''Tidak ada artikel relevan yang ditemukan dalam jangka waktu yang ditentukan.''
      else str_join [10]
             (append_entries rs 1 arts [ascii ''Artikel Berita Terkait (ringkasan singkat):'']))"

text \<open>\<open>x or '-'\<close> on an optional string and on an optional \<open>int\<close>.\<close>

definition str_or_dash :: "pystr option \<Rightarrow> pystr" where
  "str_or_dash x = (case x of None \<Rightarrow> ascii ''-'' | Some s \<Rightarrow> if s \<noteq> [] then s else ascii ''-'')"

definition int_or_dash :: "int option \<Rightarrow> pystr" where
  "int_or_dash x = (case x of None \<Rightarrow> ascii ''-'' | Some i \<Rightarrow> if i \<noteq> 0 then str_int i else ascii ''-'')"

definition profile_text :: "InvestorProfile \<Rightarrow> pystr" where
  "profile_text p =
     ascii ''Profil Investor:'' @ [10]
     @ ascii ''- Risiko: '' @ str_or_dash (risiko p) @ [10]
     @ ascii ''- Horizon (bulan): '' @ int_or_dash (horizon_bulan p) @ [10]
     @ ascii ''- Fokus: '' @ str_or_dash (fokus p) @ [10]"

text \<open>The fixed instruction segment; 8211 is the dash U+2013 of \<open>3-5\<close>.\<close>

definition task_text :: pystr where
  "task_text =
     ascii ''Tugas:'' @ [10]
     @ ascii ''- Jawab pertanyaan pengguna di bawah ini.'' @ [10]
     @ ascii ''- Gunakan konteks berita di atas jika relevan.'' @ [10]
     @ ascii ''- Sertakan langkah analisis ringkas, poin risiko, dan opsi alternatif.'' @ [10]
     @ ascii ''- Akhiri dengan ringkasan eksekutif (3'' @ [8211] @ ascii ''5 poin bullet).'' @ [10]
     @ ascii ''- Tambahkan penafian singkat bahwa ini bukan nasihat keuangan personal.'' @ [10]"

text \<open>\<open>build_prompt\<close>: \<open>parts\<close> starts empty and grows by \<open>append\<close>.  A schema
  object is always true in \<open>if profile\<close>, so the test is whether a profile was given.\<close>

definition build_prompt :: "pystr \<Rightarrow> InvestorProfile option \<Rightarrow> pystr \<Rightarrow> part list" where
  "build_prompt user_q profile news_ctx =
     (let parts0 = [];
          parts1 = (case profile of
                      None \<Rightarrow> parts0
                    | Some p \<Rightarrow> parts0 @ [TextPart (profile_text p)]);
          parts2 = parts1 @ [TextPart news_ctx];
          parts3 = parts2 @ [TextPart task_text];
          parts4 = parts3 @ [TextPart (ascii ''Pertanyaan Pengguna: '' @ user_q)]
      in parts4)"

section \<open>The handlers\<close>

text \<open>Step 1 of \<open>analyze\<close>: the search terms and the query \<open>q\<close>.  \<open>if req.kata_kunci\<close>
  and \<open>if req.tickers\<close> test the truth value: \<open>None\<close>, the empty string and the
  empty list are all false.\<close>

definition analyze_query :: "AnalyzeRequest \<Rightarrow> pystr" where
  "analyze_query req =
     (let terms0 = [];
          terms1 = (case kata_kunci req of
                      None \<Rightarrow> terms0
                    | Some kw \<Rightarrow> if kw \<noteq> [] then terms0 @ [kw] else terms0);
          terms2 = (case tickers req of
                      None \<Rightarrow> terms1
                    | Some ts \<Rightarrow> if ts \<noteq> [] then terms1 @ ts else terms1);
          terms3 = (if terms2 = [] then [ascii ''ekonomi OR pasar saham OR IHSG''] else terms2)
      in str_join (ascii '' OR '') terms3)"

definition analyze :: "env \<Rightarrow> AnalyzeRequest \<Rightarrow> call list \<times> (error + AnalyzeResponse)" where
  "analyze ev req =
     (let qs = analyze_query req;
          (calls, fetched) = fetch_news ev qs (bahasa req) (hari_kebelakang req) 8
      in case fetched of
           Inl e \<Rightarrow> (calls, Inl e)
         | Inr arts \<Rightarrow>
             (let news_ctx = build_news_context (repr_str ev) arts;
                  parts = build_prompt (pertanyaan req) (profil req) news_ctx
              in (calls @ [GenCall (Parts parts)],
                  case generate_content ev (Parts parts) of
                    Inl e \<Rightarrow> Inl (HTTPException 500 (ascii ''Gagal memanggil Gemini: '' @ e))
                  | Inr teks \<Rightarrow>
                      Inr \<lparr> resp_query = pertanyaan req,
                            resp_news_query = qs,
                            resp_articles_count = length arts,
                            resp_answer = teks,
                            resp_disclaimer = ascii
  ''Konten untuk tujuan edukasi. Lakukan riset mandiri & konsultasi penasihat berizin.'' \<rparr>)))"

text \<open>\<open>if frm\<close> and \<open>if to\<close> of \<open>news\<close>: a date is passed on when it is given and
  not empty.\<close>

definition given :: "pystr option \<Rightarrow> pystr option" where
  "given x = (case x of None \<Rightarrow> None | Some s \<Rightarrow> if s \<noteq> [] then Some s else None)"

definition news_params_of :: "NewsQuery \<Rightarrow> news_params" where
  "news_params_of query =
     \<lparr> np_q = nq_q query,
       np_language = nq_bahasa query,
       np_from_param = given (dari query),
       np_to = given (sampai query),
       np_sort_by = ascii ''publishedAt'',
       np_page = halaman query,
       np_page_size = 20 \<rparr>"

definition news :: "env \<Rightarrow> NewsQuery \<Rightarrow> call list \<times> (error + NewsResponse)" where
  "news ev query =
     (let ps = news_params_of query
      in ([NewsCall ps],
          case get_everything ev ps of Inl m \<Rightarrow> Inl (ClientError m) | Inr res \<Rightarrow>
          case check_status (repr_str ev) res of Inl e \<Rightarrow> Inl e | Inr u \<Rightarrow>
          case normalize_articles res of Inl e \<Rightarrow> Inl e | Inr arts \<Rightarrow>
          case dict_get res (ascii ''totalResults'') (JInt 0) of Inl e \<Rightarrow> Inl e | Inr n \<Rightarrow>
            Inr \<lparr> resp_total = n, resp_articles = arts \<rparr>))"

text \<open>The comprehension that \<open>suggest_questions\<close> returns:
  \<open>[s.strip(chars) for s in teks.split("\n") if s.strip()]\<close>, where \<open>chars\<close> is
  the hyphen (45), the space (32), the bullet U+2022 (8226), the newline (10) and the
  space again.\<close>

definition bullet_chars :: pystr where
  "bullet_chars = [45, 32, 8226, 10, 32]"

definition suggestion_lines :: "pystr \<Rightarrow> pystr list" where
  "suggestion_lines teks =
     map (strip_chars bullet_chars) (filter (\<lambda>s. strip_ws s \<noteq> []) (split_on 10 teks))"

definition suggest_prompt :: "pystr option \<Rightarrow> pystr" where
  "suggest_prompt topik =
     ascii ''Buat 8 pertanyaan tajam seputar keuangan/investasi untuk membantu analisis. ''
     @ ascii ''Variasikan dari makro, sektor, emiten, manajemen risiko, dan perencanaan keuangan. ''
     @ (case topik of
          None \<Rightarrow> []
        | Some t \<Rightarrow> if t \<noteq> [] then ascii ''Fokus utama: '' @ t @ ascii ''. '' else [])"

definition suggest_questions :: "env \<Rightarrow> pystr option \<Rightarrow> call list \<times> (error + pystr list)" where
  "suggest_questions ev topik =
     (let prompt = suggest_prompt topik
      in ([GenCall (Prompt prompt)],
          case generate_content ev (Prompt prompt) of
            Inl e \<Rightarrow> Inl (HTTPException 500 (ascii ''Gagal memanggil Gemini: '' @ e))
          | Inr teks \<Rightarrow> Inr (suggestion_lines teks)))"

section \<open>The routes\<close>

text \<open>A route applies the schema of its body first and runs the handler only on a
  request that passes; a body that fails is answered at once.\<close>

definition post_analyze :: "env \<Rightarrow> AnalyzeBody \<Rightarrow> call list \<times> (error + AnalyzeResponse)" where
  "post_analyze ev body =
     (case validate_AnalyzeRequest body of
        Inl e \<Rightarrow> ([], Inl e)
      | Inr req \<Rightarrow> analyze ev req)"

definition post_news :: "env \<Rightarrow> NewsBody \<Rightarrow> call list \<times> (error + NewsResponse)" where
  "post_news ev body =
     (case validate_NewsQuery body of
        Inl e \<Rightarrow> ([], Inl e)
      | Inr query \<Rightarrow> news ev query)"

section \<open>Observing the outbound calls\<close>

text \<open>The query strings passed to the news client, and the inputs passed to the model, in
  the order of the calls.\<close>

fun news_queries :: "call list \<Rightarrow> pystr list" where
  "news_queries [] = []"
| "news_queries (NewsCall p # cs) = np_q p # news_queries cs"
| "news_queries (GenCall g # cs) = news_queries cs"

fun gen_calls :: "call list \<Rightarrow> gen_input list" where
  "gen_calls [] = []"
| "gen_calls (NewsCall p # cs) = gen_calls cs"
| "gen_calls (GenCall g # cs) = g # gen_calls cs"

text \<open>A result is a client-error-class response when it is an error answered with a
  status from 400 to 499.\<close>

definition client_error :: "error + 'a \<Rightarrow> bool" where
  "client_error r = (case r of Inl e \<Rightarrow> 400 \<le> http_status e \<and> http_status e < 500 | Inr x \<Rightarrow> False)"

text \<open>The reading of \<open>/suggest-questions\<close> that strips bullet characters at the start
  of a line only; it is compared with \<open>suggestion_lines\<close> below.\<close>

definition leading_stripped_lines :: "pystr \<Rightarrow> pystr list" where
  "leading_stripped_lines teks =
     map (dropWhile (\<lambda>c. c \<in> {45, 8226, 32}))
       (filter (\<lambda>s. strip_ws s \<noteq> []) (split_on 10 teks))"

section \<open>Sample providers and requests\<close>

text \<open>Concrete stand-ins for the two providers, used to run the handlers on explicit
  inputs.  \<open>quote_repr\<close> is \<open>repr\<close> on a string of printable characters without
  quote or backslash; the sample date rendering prints the day number, and the sample
  model answers every input with the same two lines.\<close>

definition quote_repr :: "pystr \<Rightarrow> pystr" where
  "quote_repr s = [39] @ s @ [39]"

definition ok_response :: json where
  "ok_response =
     JDict [(ascii ''status'', JStr (ascii ''ok'')),
            (ascii ''totalResults'', JInt 1),
            (ascii ''articles'',
             JList [JDict [(ascii ''source'', JDict [(ascii ''id'', JNull),
                                                    (ascii ''name'', JStr (ascii ''Kontan''))]),
                           (ascii ''title'', JStr (ascii ''Rupiah menguat'')),
                           (ascii ''description'', JStr []),
                           (ascii ''url'', JStr (ascii ''https://example.com/a'')),
                           (ascii ''publishedAt'', JStr (ascii ''2024-05-01T00:00:00Z''))]])]"

definition error_response :: json where
  "error_response =
     JDict [(ascii ''status'', JStr (ascii ''error'')),
            (ascii ''code'', JStr (ascii ''rateLimited''))]"

definition null_source_response :: json where
  "null_source_response =
     JDict [(ascii ''status'', JStr (ascii ''ok'')),
            (ascii ''totalResults'', JInt 1),
            (ascii ''articles'',
             JList [JDict [(ascii ''source'', JNull),
                           (ascii ''title'', JStr (ascii ''Rupiah menguat''))]])]"

definition sample_env :: "json \<Rightarrow> env" where
  "sample_env res =
     \<lparr> repr_str = quote_repr,
       date_today = 739007,
       strftime_ymd = str_int,
       get_everything = (\<lambda>ps. Inr res),
       generate_content = (\<lambda>g. Inr (ascii ''- a -'' @ [10] @ ascii ''-'')) \<rparr>"

text \<open>A news client that raises: the provider answered with \<open>error_response\<close> under
  an HTTP error status.\<close>

definition raising_env :: env where
  "raising_env =
     (sample_env error_response)
       \<lparr> get_everything := (\<lambda>ps. Inl (NewsAPIException error_response)) \<rparr>"

definition sample_request :: AnalyzeRequest where
  "sample_request =
     \<lparr> pertanyaan = ascii ''Apa dampak inflasi?'',
       tickers = Some [ascii ''BBCA'', ascii ''TLKM''],
       kata_kunci = Some (ascii ''inflasi''),
       hari_kebelakang = 7,
       bahasa = ascii ''id'',
       profil = None \<rparr>"

definition sample_body :: AnalyzeBody where
  "sample_body =
     \<lparr> pertanyaan_in = Some (ascii ''Apa dampak inflasi?''),
       tickers_in = None,
       kata_kunci_in = None,
       hari_kebelakang_in = None,
       bahasa_in = None,
       profil_in = None \<rparr>"

definition sample_news_body :: NewsBody where
  "sample_news_body =
     \<lparr> q_in = Some (ascii ''IHSG''),
       dari_in = None,
       sampai_in = None,
       nq_bahasa_in = None,
       halaman_in = None \<rparr>"

definition sample_article :: NewsArticle where
  "sample_article =
     \<lparr> judul = JStr (ascii ''Rupiah menguat''),
       sumber = JStr (ascii ''Kontan''),
       url = JStr (ascii ''https://example.com/a''),
       publishedAt = JStr (ascii ''2024-05-01''),
       ringkas = JStr [] \<rparr>"

section \<open>Facts about the string utilities\<close>

lemma ascii_eq_iff [simp]: "ascii s = ascii t \<longleftrightarrow> s = t"
  unfolding ascii_def by (simp add: inj_map_eq_map inj_of_char)

lemma ascii_Nil [simp]: "ascii [] = []"
  by (simp add: ascii_def)

lemma ascii_eq_Nil_iff [simp]: "ascii s = [] \<longleftrightarrow> s = []"
  by (simp add: ascii_def)

lemma str_join_Cons: "str_join sep (x # xs) = x @ concat (map (\<lambda>t. sep @ t) xs)"
  by (induction xs arbitrary: x) simp_all

section \<open>The calls a handler makes\<close>

lemma news_queries_append [simp]: "news_queries (cs @ ds) = news_queries cs @ news_queries ds"
  by (induction cs rule: news_queries.induct) simp_all

lemma gen_calls_append [simp]: "gen_calls (cs @ ds) = gen_calls cs @ gen_calls ds"
  by (induction cs rule: gen_calls.induct) simp_all

lemma fst_fetch_news:
  "fst (fetch_news ev qs l d n) = [NewsCall (fetch_news_params ev qs l d n)]"
  by (simp add: fetch_news_def Let_def)

lemma np_q_fetch_news_params [simp]: "np_q (fetch_news_params ev qs l d n) = qs"
  by (simp add: fetch_news_params_def Let_def)

lemma news_queries_analyze: "news_queries (fst (analyze ev req)) = [analyze_query req]"
proof -
  obtain r where f: "fetch_news ev (analyze_query req) (bahasa req) (hari_kebelakang req) 8
      = ([NewsCall (fetch_news_params ev (analyze_query req) (bahasa req) (hari_kebelakang req) 8)], r)"
    using fst_fetch_news [of ev "analyze_query req" "bahasa req" "hari_kebelakang req" 8]
    by (cases "fetch_news ev (analyze_query req) (bahasa req) (hari_kebelakang req) 8") simp
  show ?thesis
    by (cases r) (simp_all add: analyze_def Let_def f)
qed

section \<open>The news query of \<open>/analyze\<close>\<close>

lemma analyze_query_keyword_tickers:
  assumes "kata_kunci req = Some kw" and "kw \<noteq> []" and "tickers req = Some ts"
  shows "analyze_query req = kw @ concat (map (\<lambda>t. ascii '' OR '' @ t) ts)"
  using assms by (cases ts) (simp_all add: analyze_query_def str_join_Cons)

lemma analyze_query_fallback:
  assumes "kata_kunci req = None \<or> kata_kunci req = Some []"
    and "tickers req = None \<or> tickers req = Some []"
  shows "analyze_query req = ascii ''ekonomi OR pasar saham OR IHSG''"
  using assms by (auto simp add: analyze_query_def)

text \<open>
  Claim C1, as the code has it.  When the request carries a keyword that is not the empty
  string and a ticker list, the one query string \<open>/analyze\<close> passes to the news client is
  the keyword followed, for each ticker in list order, by \<open>" OR "\<close> and the ticker.
\<close>

theorem analyze_query_keyword_then_tickers:
  assumes "kata_kunci req = Some kw" and "kw \<noteq> []" and "tickers req = Some ts"
  shows "news_queries (fst (analyze ev req)) = [kw @ concat (map (\<lambda>t. ascii '' OR '' @ t) ts)]"
  using assms by (simp add: news_queries_analyze analyze_query_keyword_tickers)

theorem analyze_query_keyword_then_tickers_witness:
  "kata_kunci sample_request = Some (ascii ''inflasi'') \<and> ascii ''inflasi'' \<noteq> []
   \<and> tickers sample_request = Some [ascii ''BBCA'', ascii ''TLKM'']
   \<and> news_queries (fst (analyze (sample_env ok_response) sample_request))
       = [ascii ''inflasi OR BBCA OR TLKM'']"
  using analyze_query_keyword_then_tickers
    [of sample_request "ascii ''inflasi''" "[ascii ''BBCA'', ascii ''TLKM'']"
        "sample_env ok_response"]
  by (simp add: sample_request_def) (simp add: ascii_def)

text \<open>
  With a keyword that is present but empty the claim as written fails: the keyword is
  dropped, and the query is the ticker alone, not \<open>" OR BBCA"\<close>.
\<close>

theorem analyze_query_empty_keyword_counterexample:
  "kata_kunci (sample_request\<lparr>kata_kunci := Some [], tickers := Some [ascii ''BBCA'']\<rparr>) = Some []
   \<and> tickers (sample_request\<lparr>kata_kunci := Some [], tickers := Some [ascii ''BBCA'']\<rparr>)
       = Some [ascii ''BBCA'']
   \<and> news_queries (fst (analyze (sample_env ok_response)
         (sample_request\<lparr>kata_kunci := Some [], tickers := Some [ascii ''BBCA'']\<rparr>)))
       = [ascii ''BBCA'']
   \<and> news_queries (fst (analyze (sample_env ok_response)
         (sample_request\<lparr>kata_kunci := Some [], tickers := Some [ascii ''BBCA'']\<rparr>)))
       \<noteq> [[] @ ascii '' OR '' @ ascii ''BBCA'']"
  by (simp add: news_queries_analyze analyze_query_def)

text \<open>
  Claim C2.  When the request has neither a ticker list nor a keyword, the one query string
  \<open>/analyze\<close> passes to the news client is the fixed fallback string.
\<close>

theorem analyze_query_both_absent:
  assumes "kata_kunci req = None" and "tickers req = None"
  shows "news_queries (fst (analyze ev req)) = [ascii ''ekonomi OR pasar saham OR IHSG'']"
  using assms by (simp add: news_queries_analyze analyze_query_fallback)

theorem analyze_query_both_absent_witness:
  "kata_kunci (sample_request\<lparr>kata_kunci := None, tickers := None\<rparr>) = None
   \<and> tickers (sample_request\<lparr>kata_kunci := None, tickers := None\<rparr>) = None
   \<and> news_queries (fst (analyze (sample_env ok_response)
         (sample_request\<lparr>kata_kunci := None, tickers := None\<rparr>)))
       = [ascii ''ekonomi OR pasar saham OR IHSG'']"
  using analyze_query_both_absent
    [of "sample_request\<lparr>kata_kunci := None, tickers := None\<rparr>" "sample_env ok_response"]
  by simp

text \<open>
  Claim C10.  In building the news query an empty keyword string counts as an absent
  keyword and an empty ticker list as an absent ticker list: replacing one by the other
  leaves the query passed to the news client unchanged, and when each of the two fields is
  absent or empty the query is the fixed fallback string.
\<close>

theorem analyze_query_empty_as_absent:
  "news_queries (fst (analyze ev (req\<lparr>kata_kunci := Some []\<rparr>)))
     = news_queries (fst (analyze ev (req\<lparr>kata_kunci := None\<rparr>)))
   \<and> news_queries (fst (analyze ev (req\<lparr>tickers := Some []\<rparr>)))
     = news_queries (fst (analyze ev (req\<lparr>tickers := None\<rparr>)))
   \<and> ((kata_kunci req = None \<or> kata_kunci req = Some [])
        \<and> (tickers req = None \<or> tickers req = Some [])
      \<longrightarrow> news_queries (fst (analyze ev req)) = [ascii ''ekonomi OR pasar saham OR IHSG''])"
  by (simp add: news_queries_analyze analyze_query_fallback) (simp add: analyze_query_def)

theorem analyze_query_empty_as_absent_witness:
  "(kata_kunci (sample_request\<lparr>kata_kunci := Some [], tickers := Some []\<rparr>) = None
      \<or> kata_kunci (sample_request\<lparr>kata_kunci := Some [], tickers := Some []\<rparr>) = Some [])
   \<and> (tickers (sample_request\<lparr>kata_kunci := Some [], tickers := Some []\<rparr>) = None
      \<or> tickers (sample_request\<lparr>kata_kunci := Some [], tickers := Some []\<rparr>) = Some [])
   \<and> news_queries (fst (analyze (sample_env ok_response)
         (sample_request\<lparr>kata_kunci := Some [], tickers := Some []\<rparr>)))
       = [ascii ''ekonomi OR pasar saham OR IHSG'']"
  using analyze_query_empty_as_absent
    [of "sample_env ok_response" "sample_request\<lparr>kata_kunci := Some [], tickers := Some []\<rparr>",
     THEN conjunct2, THEN conjunct2]
  by simp

section \<open>The prompt\<close>

text \<open>
  Claim C3.  For every question, optional profile and news context, \<open>build_prompt\<close>
  returns the profile segment when a profile was given and no such segment otherwise,
  then the news context, then the instruction segment, then the question segment; the
  last segment is \<open>"Pertanyaan Pengguna: "\<close> followed by the question.
\<close>

theorem build_prompt_segments:
  "build_prompt user_q profile news_ctx
     = (case profile of None \<Rightarrow> [] | Some p \<Rightarrow> [TextPart (profile_text p)])
       @ [TextPart news_ctx, TextPart task_text,
          TextPart (ascii ''Pertanyaan Pengguna: '' @ user_q)]
   \<and> length (build_prompt user_q profile news_ctx) = (if profile = None then 3 else 4)
   \<and> last (build_prompt user_q profile news_ctx)
       = TextPart (ascii ''Pertanyaan Pengguna: '' @ user_q)"
  by (cases profile) (simp_all add: build_prompt_def)

theorem build_prompt_segments_witness:
  "build_prompt (ascii ''Apa itu IHSG?'')
      (Some \<lparr> risiko = Some (ascii ''sedang''), horizon_bulan = Some 12, fokus = None \<rparr>)
      (ascii ''ctx'')
     = [TextPart (ascii ''Profil Investor:'' @ [10] @ ascii ''- Risiko: sedang'' @ [10]
                  @ ascii ''- Horizon (bulan): 12'' @ [10] @ ascii ''- Fokus: -'' @ [10]),
        TextPart (ascii ''ctx''), TextPart task_text,
        TextPart (ascii ''Pertanyaan Pengguna: Apa itu IHSG?'')]
   \<and> build_prompt (ascii ''Apa itu IHSG?'') None (ascii ''ctx'')
     = [TextPart (ascii ''ctx''), TextPart task_text,
        TextPart (ascii ''Pertanyaan Pengguna: Apa itu IHSG?'')]"
  using build_prompt_segments
      [of "ascii ''Apa itu IHSG?''"
          "Some \<lparr> risiko = Some (ascii ''sedang''), horizon_bulan = Some 12, fokus = None \<rparr>"
          "ascii ''ctx''"]
    build_prompt_segments [of "ascii ''Apa itu IHSG?''" None "ascii ''ctx''"]
  by (simp add: profile_text_def str_or_dash_def int_or_dash_def str_int_def dec_nat.simps
        ascii_def)

section \<open>The news context\<close>

lemma append_entries_enumerate:
  "append_entries rs i arts lines
     = lines @ map (\<lambda>(k, a). news_entry rs k a) (enumerate i arts)"
  by (induction arts arbitrary: i lines) simp_all

text \<open>
  Claim C4, as the code has it.  On the empty list \<open>build_news_context\<close> returns the fixed
  sentence.  On a non-empty list it returns, joined by newlines, the header line and for
  each article in input order, numbered from 1, the line
  \<open>{index}. [{title}]({url}) - {source} - {publishedAt}\<close> (the two dashes are U+2014)
  followed by a newline and
  the indented summary line, which shows the description when that is a true value and
  the placeholder \<open>-\<close> when the description is absent, empty or any other false value.
\<close>

theorem build_news_context_format:
  "build_news_context rs []
     = ascii ''Tidak ada artikel relevan yang ditemukan dalam jangka waktu yang ditentukan.''
   \<and> (arts \<noteq> [] \<longrightarrow>
        build_news_context rs arts
          = str_join [10]
              (ascii ''Artikel Berita Terkait (ringkasan singkat):''
               # map (\<lambda>(i, a).
                        dec_nat i @ ascii ''. ['' @ py_str rs (judul a) @ ascii '']('' 
                        @ py_str rs (url a) @ ascii '') '' @ [8212] @ ascii '' ''
                        @ py_str rs (sumber a) @ ascii '' '' @ [8212] @ ascii '' ''
                        @ py_str rs (publishedAt a) @ [10] @ ascii ''   Ringkas: ''
                        @ (if truthy (ringkas a) then py_str rs (ringkas a) else ascii ''-''))
                   (enumerate 1 arts)))
   \<and> \<not> truthy JNull \<and> \<not> truthy (JStr [])"
  by (simp add: build_news_context_def append_entries_enumerate news_entry_def Let_def)

theorem build_news_context_format_witness:
  "[sample_article, sample_article\<lparr>ringkas := JStr (ascii ''Kurs naik.'')\<rparr>] \<noteq> []
   \<and> build_news_context quote_repr
        [sample_article, sample_article\<lparr>ringkas := JStr (ascii ''Kurs naik.'')\<rparr>]
     = ascii ''Artikel Berita Terkait (ringkasan singkat):'' @ [10]
       @ ascii ''1. [Rupiah menguat](https://example.com/a) '' @ [8212] @ ascii '' Kontan ''
       @ [8212] @ ascii '' 2024-05-01'' @ [10] @ ascii ''   Ringkas: -'' @ [10]
       @ ascii ''2. [Rupiah menguat](https://example.com/a) '' @ [8212] @ ascii '' Kontan ''
       @ [8212] @ ascii '' 2024-05-01'' @ [10] @ ascii ''   Ringkas: Kurs naik.''"
  using build_news_context_format
      [of quote_repr "[sample_article, sample_article\<lparr>ringkas := JStr (ascii ''Kurs naik.'')\<rparr>]"]
  by (simp add: sample_article_def dec_nat.simps enumerate_eq_zip upt_rec) (simp add: ascii_def)

text \<open>
  A description that is present but empty is not shown: the summary line carries the
  placeholder, so the claim as written (placeholder only for an absent description) fails
  on \<open>sample_article\<close>, whose description is the empty string.
\<close>

theorem build_news_context_empty_description_counterexample:
  "ringkas sample_article = JStr []
   \<and> build_news_context quote_repr [sample_article]
     = ascii ''Artikel Berita Terkait (ringkasan singkat):'' @ [10]
       @ ascii ''1. [Rupiah menguat](https://example.com/a) '' @ [8212] @ ascii '' Kontan ''
       @ [8212] @ ascii '' 2024-05-01'' @ [10] @ ascii ''   Ringkas: -''
   \<and> build_news_context quote_repr [sample_article]
     \<noteq> ascii ''Artikel Berita Terkait (ringkasan singkat):'' @ [10]
       @ ascii ''1. [Rupiah menguat](https://example.com/a) '' @ [8212] @ ascii '' Kontan ''
       @ [8212] @ ascii '' 2024-05-01'' @ [10] @ ascii ''   Ringkas: ''
       @ py_str quote_repr (ringkas sample_article)"
  by (simp add: build_news_context_def news_entry_def sample_article_def dec_nat.simps ascii_def)

section \<open>Normalizing the provider's articles\<close>

text \<open>An article object whose \<open>source\<close> is left out or is an object is normalized
  without error; a key that is left out, or that holds \<open>None\<close>, gives \<open>None\<close>.\<close>

lemma normalize_article_object:
  assumes "map_of kvs (ascii ''source'') = None \<or> map_of kvs (ascii ''source'') = Some (JDict src)"
  shows "normalize_article (JDict kvs)
     = Inr \<lparr> judul = (case map_of kvs (ascii ''title'') of None \<Rightarrow> JNull | Some v \<Rightarrow> v),
             sumber = (case map_of kvs (ascii ''source'') of
                         None \<Rightarrow> JNull
                       | Some s \<Rightarrow> (case map_of src (ascii ''name'') of None \<Rightarrow> JNull | Some v \<Rightarrow> v)),
             url = (case map_of kvs (ascii ''url'') of None \<Rightarrow> JNull | Some v \<Rightarrow> v),
             publishedAt = (case map_of kvs (ascii ''publishedAt'') of None \<Rightarrow> JNull | Some v \<Rightarrow> v),
             ringkas = (case map_of kvs (ascii ''description'') of None \<Rightarrow> JNull | Some v \<Rightarrow> v) \<rparr>"
  using assms by (auto simp add: normalize_article_def)

lemma normalize_article_source_not_object:
  assumes "map_of kvs (ascii ''source'') = Some v" and "\<forall>src. v \<noteq> JDict src"
  shows "normalize_article (JDict kvs) = Inl AttributeError"
  using assms by (cases v) (simp_all add: normalize_article_def)

text \<open>
  Claim C5 on a response with status \<open>ok\<close> whose one article has \<open>"source": null\<close>.
  The status check passes, and the normalization raises \<open>AttributeError\<close>: the default
  \<open>{}\<close> of \<open>a.get("source", {})\<close> is used for a key that is left out, not for a key
  that holds \<open>None\<close>.  Both routes answer 500.
\<close>

theorem normalize_null_source_raises:
  "check_status quote_repr null_source_response = Inr ()
   \<and> normalize_articles null_source_response = Inl AttributeError
   \<and> snd (post_analyze (sample_env null_source_response) sample_body) = Inl AttributeError
   \<and> snd (post_news (sample_env null_source_response) sample_news_body) = Inl AttributeError
   \<and> http_status AttributeError = 500"
  by (simp add: null_source_response_def check_status_def normalize_articles_def
        normalize_article_def post_analyze_def post_news_def validate_AnalyzeRequest_def
        validate_NewsQuery_def sample_body_def sample_news_body_def analyze_def news_def
        fetch_news_def sample_env_def Let_def)

section \<open>A provider status other than \<open>ok\<close>\<close>

lemma check_status_not_ok:
  assumes "map_of kvs (ascii ''status'') \<noteq> Some (JStr (ascii ''ok''))"
  shows "check_status rs (JDict kvs)
     = Inl (HTTPException 502 (ascii ''Gagal memuat berita: '' @ py_str rs (JDict kvs)))"
  using assms by (auto simp add: check_status_def split: option.splits)

lemma analyze_status_not_ok:
  assumes "fst (analyze ev req) = NewsCall p # rest"
    and "get_everything ev p = Inr (JDict kvs)"
    and "map_of kvs (ascii ''status'') \<noteq> Some (JStr (ascii ''ok''))"
  shows "analyze ev req
     = ([NewsCall p],
        Inl (HTTPException 502
               (ascii ''Gagal memuat berita: '' @ py_str (repr_str ev) (JDict kvs))))"
proof -
  let ?ps = "fetch_news_params ev (analyze_query req) (bahasa req) (hari_kebelakang req) 8"
  let ?f = "fetch_news ev (analyze_query req) (bahasa req) (hari_kebelakang req) 8"
  have calls: "fst ?f = [NewsCall ?ps]"
    by (rule fst_fetch_news)
  have "fst (analyze ev req) = [NewsCall ?ps] \<or> (\<exists>g. fst (analyze ev req) = [NewsCall ?ps, g])"
    using calls by (cases ?f) (auto simp add: analyze_def Let_def split: sum.splits)
  with assms(1) have p: "p = ?ps"
    by auto
  have "snd ?f = Inl (HTTPException 502
               (ascii ''Gagal memuat berita: '' @ py_str (repr_str ev) (JDict kvs)))"
    using assms(2) check_status_not_ok [OF assms(3)]
    by (simp add: fetch_news_def Let_def p)
  with calls show ?thesis
    by (cases ?f) (simp add: analyze_def Let_def p)
qed

lemma news_status_not_ok:
  assumes "fst (news ev query) = NewsCall p # rest"
    and "get_everything ev p = Inr (JDict kvs)"
    and "map_of kvs (ascii ''status'') \<noteq> Some (JStr (ascii ''ok''))"
  shows "news ev query
     = ([NewsCall p],
        Inl (HTTPException 502
               (ascii ''Gagal memuat berita: '' @ py_str (repr_str ev) (JDict kvs))))"
proof -
  from assms(1) have p: "p = news_params_of query"
    by (simp add: news_def Let_def)
  show ?thesis
    using assms(2) check_status_not_ok [OF assms(3)]
    by (simp add: news_def Let_def p)
qed

text \<open>
  When the news client returns an object whose \<open>status\<close> is missing or differs from
  \<open>"ok"\<close>, the route responds with an \<open>HTTPException\<close> of status 502 whose detail is
  \<open>"Gagal memuat berita: "\<close> followed by the response as Python prints it, and the news
  call is the only outbound call.
\<close>

lemma returned_status_not_ok:
  assumes "map_of kvs (ascii ''status'') \<noteq> Some (JStr (ascii ''ok''))"
  shows "(fst (post_analyze ev body) = NewsCall p # rest \<and> get_everything ev p = Inr (JDict kvs)
          \<longrightarrow> snd (post_analyze ev body)
                = Inl (HTTPException 502
                         (ascii ''Gagal memuat berita: '' @ py_str (repr_str ev) (JDict kvs)))
              \<and> rest = [] \<and> gen_calls (fst (post_analyze ev body)) = [])
       \<and> (fst (post_news ev nbody) = NewsCall p' # rest' \<and> get_everything ev p' = Inr (JDict kvs)
          \<longrightarrow> snd (post_news ev nbody)
                = Inl (HTTPException 502
                         (ascii ''Gagal memuat berita: '' @ py_str (repr_str ev) (JDict kvs)))
              \<and> rest' = [] \<and> gen_calls (fst (post_news ev nbody)) = [])"
proof (intro conjI impI)
  assume a: "fst (post_analyze ev body) = NewsCall p # rest \<and> get_everything ev p = Inr (JDict kvs)"
  then obtain req where v: "validate_AnalyzeRequest body = Inr req"
    by (cases "validate_AnalyzeRequest body") (simp_all add: post_analyze_def)
  with a have "fst (analyze ev req) = NewsCall p # rest"
    by (simp add: post_analyze_def)
  from analyze_status_not_ok [OF this conjunct2 [OF a] assms] a v
  show "snd (post_analyze ev body)
          = Inl (HTTPException 502
                   (ascii ''Gagal memuat berita: '' @ py_str (repr_str ev) (JDict kvs)))"
    and "rest = []" and "gen_calls (fst (post_analyze ev body)) = []"
    by (simp_all add: post_analyze_def)
next
  assume a: "fst (post_news ev nbody) = NewsCall p' # rest' \<and> get_everything ev p' = Inr (JDict kvs)"
  then obtain query where v: "validate_NewsQuery nbody = Inr query"
    by (cases "validate_NewsQuery nbody") (simp_all add: post_news_def)
  with a have "fst (news ev query) = NewsCall p' # rest'"
    by (simp add: post_news_def)
  from news_status_not_ok [OF this conjunct2 [OF a] assms] a v
  show "snd (post_news ev nbody)
          = Inl (HTTPException 502
                   (ascii ''Gagal memuat berita: '' @ py_str (repr_str ev) (JDict kvs)))"
    and "rest' = []" and "gen_calls (fst (post_news ev nbody)) = []"
    by (simp_all add: post_news_def)
qed

text \<open>When the news client raises, neither handler catches the exception: it leaves the
  route as it is, after the news call and before any generation call.\<close>

lemma analyze_client_raises:
  assumes "get_everything ev
             (fetch_news_params ev (analyze_query req) (bahasa req) (hari_kebelakang req) 8)
           = Inl x"
  shows "analyze ev req
     = ([NewsCall (fetch_news_params ev (analyze_query req) (bahasa req) (hari_kebelakang req) 8)],
        Inl (ClientError x))"
  using assms by (simp add: analyze_def fetch_news_def Let_def)

lemma news_client_raises:
  assumes "get_everything ev (news_params_of query) = Inl x"
  shows "news ev query = ([NewsCall (news_params_of query)], Inl (ClientError x))"
  using assms by (simp add: news_def Let_def)

text \<open>
  Claim C6 on a provider answer with status \<open>error\<close> that the news client delivers by
  raising \<open>NewsAPIException\<close>.  The calls at \<open>app.py\<close> lines 89 and 222 stand outside
  any \<open>try\<close>, so the check of the status is never reached: both routes end with the
  client's exception, which is answered 500, not 502.  No generation call is made.
\<close>

theorem upstream_error_raised_unhandled:
  "dict_get error_response (ascii ''status'') JNull = Inr (JStr (ascii ''error''))
   \<and> post_analyze raising_env (sample_body\<lparr>bahasa_in := Some (ascii ''en'')\<rparr>)
     = ([NewsCall (fetch_news_params raising_env
                     (ascii ''ekonomi OR pasar saham OR IHSG'') (ascii ''en'') 7 8)],
        Inl (ClientError (NewsAPIException error_response)))
   \<and> post_news raising_env (sample_news_body\<lparr>nq_bahasa_in := Some (ascii ''en'')\<rparr>)
     = ([NewsCall \<lparr> np_q = ascii ''IHSG'', np_language = ascii ''en'', np_from_param = None,
                    np_to = None, np_sort_by = ascii ''publishedAt'', np_page = 1,
                    np_page_size = 20 \<rparr>],
        Inl (ClientError (NewsAPIException error_response)))
   \<and> http_status (ClientError (NewsAPIException error_response)) = 500"
proof -
  let ?req = "\<lparr> pertanyaan = ascii ''Apa dampak inflasi?'', tickers = None, kata_kunci = None,
                 hari_kebelakang = 7, bahasa = ascii ''en'', profil = None \<rparr>"
  let ?query = "\<lparr> nq_q = ascii ''IHSG'', dari = None, sampai = None, nq_bahasa = ascii ''en'',
                   halaman = 1 \<rparr>"
  have g: "get_everything raising_env ps = Inl (NewsAPIException error_response)" for ps
    by (simp add: raising_env_def)
  have va: "validate_AnalyzeRequest (sample_body\<lparr>bahasa_in := Some (ascii ''en'')\<rparr>) = Inr ?req"
    by (simp add: validate_AnalyzeRequest_def sample_body_def)
  have vn: "validate_NewsQuery (sample_news_body\<lparr>nq_bahasa_in := Some (ascii ''en'')\<rparr>) = Inr ?query"
    by (simp add: validate_NewsQuery_def sample_news_body_def)
  have q: "analyze_query ?req = ascii ''ekonomi OR pasar saham OR IHSG''"
    by (simp add: analyze_query_fallback)
  have a: "post_analyze raising_env (sample_body\<lparr>bahasa_in := Some (ascii ''en'')\<rparr>)
     = ([NewsCall (fetch_news_params raising_env
                     (ascii ''ekonomi OR pasar saham OR IHSG'') (ascii ''en'') 7 8)],
        Inl (ClientError (NewsAPIException error_response)))"
    using analyze_client_raises [of raising_env ?req, OF g] q
    by (simp add: post_analyze_def va)
  have n: "post_news raising_env (sample_news_body\<lparr>nq_bahasa_in := Some (ascii ''en'')\<rparr>)
     = ([NewsCall \<lparr> np_q = ascii ''IHSG'', np_language = ascii ''en'', np_from_param = None,
                    np_to = None, np_sort_by = ascii ''publishedAt'', np_page = 1,
                    np_page_size = 20 \<rparr>],
        Inl (ClientError (NewsAPIException error_response)))"
    using news_client_raises [of raising_env ?query, OF g]
    by (simp add: post_news_def vn news_params_of_def given_def)
  have d: "dict_get error_response (ascii ''status'') JNull = Inr (JStr (ascii ''error''))"
    by (simp add: error_response_def)
  from d a n show ?thesis
    by simp
qed

section \<open>Validation at request entry\<close>

lemma validate_AnalyzeRequest_rejects:
  assumes "pertanyaan_in body = None
           \<or> (\<exists>d. hari_kebelakang_in body = Some d \<and> (d < 1 \<or> 30 < d))"
  shows "\<exists>fs. validate_AnalyzeRequest body = Inl (RequestValidationError fs) \<and> fs \<noteq> []
           \<and> (pertanyaan_in body = None \<longrightarrow> ''pertanyaan'' \<in> set fs)
           \<and> ((\<exists>d. hari_kebelakang_in body = Some d \<and> (d < 1 \<or> 30 < d))
                \<longrightarrow> ''hari_kebelakang'' \<in> set fs)"
  using assms
  by (auto simp add: validate_AnalyzeRequest_def Let_def split: option.splits list.splits)

lemma validate_NewsQuery_rejects:
  assumes "halaman_in nbody = Some n" and "n < 1 \<or> 5 < n"
  shows "\<exists>fs. validate_NewsQuery nbody = Inl (RequestValidationError fs) \<and> ''halaman'' \<in> set fs"
  using assms
  by (auto simp add: validate_NewsQuery_def Let_def split: option.splits list.splits)

text \<open>
  Claim C7.  A request to \<open>/analyze\<close> whose \<open>hari_kebelakang\<close> lies outside 1..30, and a
  request to \<open>/news\<close> whose \<open>halaman\<close> lies outside 1..5, is rejected with a
  client-error-class response (422) that names the field, and the route makes no
  outbound call.
\<close>

theorem out_of_range_rejected:
  "(hari_kebelakang_in body = Some d \<and> (d < 1 \<or> 30 < d)
      \<longrightarrow> fst (post_analyze ev body) = [] \<and> client_error (snd (post_analyze ev body))
          \<and> (\<exists>fs. snd (post_analyze ev body) = Inl (RequestValidationError fs)
                   \<and> ''hari_kebelakang'' \<in> set fs))
   \<and> (halaman_in nbody = Some n \<and> (n < 1 \<or> 5 < n)
      \<longrightarrow> fst (post_news ev nbody) = [] \<and> client_error (snd (post_news ev nbody))
          \<and> (\<exists>fs. snd (post_news ev nbody) = Inl (RequestValidationError fs)
                   \<and> ''halaman'' \<in> set fs))"
proof (intro conjI impI)
  assume a: "hari_kebelakang_in body = Some d \<and> (d < 1 \<or> 30 < d)"
  then obtain fs where "validate_AnalyzeRequest body = Inl (RequestValidationError fs)"
      and "''hari_kebelakang'' \<in> set fs"
    using validate_AnalyzeRequest_rejects [of body] by blast
  then show "fst (post_analyze ev body) = []" and "client_error (snd (post_analyze ev body))"
    and "\<exists>fs. snd (post_analyze ev body) = Inl (RequestValidationError fs)
            \<and> ''hari_kebelakang'' \<in> set fs"
    by (simp_all add: post_analyze_def client_error_def)
next
  assume a: "halaman_in nbody = Some n \<and> (n < 1 \<or> 5 < n)"
  then obtain fs where "validate_NewsQuery nbody = Inl (RequestValidationError fs)"
      and "''halaman'' \<in> set fs"
    using validate_NewsQuery_rejects [of nbody n] by blast
  then show "fst (post_news ev nbody) = []" and "client_error (snd (post_news ev nbody))"
    and "\<exists>fs. snd (post_news ev nbody) = Inl (RequestValidationError fs)
            \<and> ''halaman'' \<in> set fs"
    by (simp_all add: post_news_def client_error_def)
qed

theorem out_of_range_rejected_witness:
  "hari_kebelakang_in (sample_body\<lparr>hari_kebelakang_in := Some 31\<rparr>) = Some 31
   \<and> ((31::int) < 1 \<or> (30::int) < 31)
   \<and> post_analyze (sample_env ok_response) (sample_body\<lparr>hari_kebelakang_in := Some 31\<rparr>)
     = ([], Inl (RequestValidationError [''hari_kebelakang'']))
   \<and> halaman_in (sample_news_body\<lparr>halaman_in := Some 0\<rparr>) = Some 0
   \<and> ((0::int) < 1 \<or> (5::int) < 0)
   \<and> post_news (sample_env ok_response) (sample_news_body\<lparr>halaman_in := Some 0\<rparr>)
     = ([], Inl (RequestValidationError [''halaman'']))"
  using out_of_range_rejected
      [of "sample_body\<lparr>hari_kebelakang_in := Some 31\<rparr>" 31 "sample_env ok_response"
          "sample_news_body\<lparr>halaman_in := Some 0\<rparr>" 0]
  by (simp add: post_analyze_def post_news_def validate_AnalyzeRequest_def
        validate_NewsQuery_def sample_body_def sample_news_body_def)

text \<open>
  Claim C8, as the code has it.  The question is required: a request to \<open>/analyze\<close> that
  leaves \<open>pertanyaan\<close> out is rejected with a client-error-class response that names the
  field, and the route makes no outbound call.  The schema puts no bound on the question:
  whether a request passes or fails does not depend on the question's text.  A body that
  passes with one question passes with any other, the empty string included, and gives
  the same request but for the question; a body that fails with one question fails with
  any other, with the same error.
\<close>

theorem question_required:
  "(pertanyaan_in body = None
      \<longrightarrow> fst (post_analyze ev body) = [] \<and> client_error (snd (post_analyze ev body))
          \<and> (\<exists>fs. snd (post_analyze ev body) = Inl (RequestValidationError fs)
                   \<and> ''pertanyaan'' \<in> set fs))
   \<and> (validate_AnalyzeRequest (body\<lparr>pertanyaan_in := Some x\<rparr>) = Inr req
      \<longrightarrow> validate_AnalyzeRequest (body\<lparr>pertanyaan_in := Some y\<rparr>)
            = Inr (req\<lparr>pertanyaan := y\<rparr>))
   \<and> (validate_AnalyzeRequest (body\<lparr>pertanyaan_in := Some x\<rparr>) = Inl e
      \<longrightarrow> validate_AnalyzeRequest (body\<lparr>pertanyaan_in := Some y\<rparr>) = Inl e)"
proof (intro conjI impI)
  assume a: "pertanyaan_in body = None"
  then obtain fs where "validate_AnalyzeRequest body = Inl (RequestValidationError fs)"
      and "''pertanyaan'' \<in> set fs"
    using validate_AnalyzeRequest_rejects [of body] by blast
  then show "fst (post_analyze ev body) = []" and "client_error (snd (post_analyze ev body))"
    and "\<exists>fs. snd (post_analyze ev body) = Inl (RequestValidationError fs)
            \<and> ''pertanyaan'' \<in> set fs"
    by (simp_all add: post_analyze_def client_error_def)
next
  assume "validate_AnalyzeRequest (body\<lparr>pertanyaan_in := Some x\<rparr>) = Inr req"
  then show "validate_AnalyzeRequest (body\<lparr>pertanyaan_in := Some y\<rparr>)
            = Inr (req\<lparr>pertanyaan := y\<rparr>)"
    by (auto simp add: validate_AnalyzeRequest_def Let_def split: list.splits)
next
  assume "validate_AnalyzeRequest (body\<lparr>pertanyaan_in := Some x\<rparr>) = Inl e"
  then show "validate_AnalyzeRequest (body\<lparr>pertanyaan_in := Some y\<rparr>) = Inl e"
    by (auto simp add: validate_AnalyzeRequest_def Let_def split: list.splits)
qed

theorem question_required_witness:
  "pertanyaan_in (sample_body\<lparr>pertanyaan_in := None\<rparr>) = None
   \<and> post_analyze (sample_env ok_response) (sample_body\<lparr>pertanyaan_in := None\<rparr>)
     = ([], Inl (RequestValidationError [''pertanyaan'']))
   \<and> validate_AnalyzeRequest (sample_body\<lparr>pertanyaan_in := Some (ascii ''Apa itu IHSG?'')\<rparr>)
     = Inr \<lparr> pertanyaan = ascii ''Apa itu IHSG?'', tickers = None, kata_kunci = None,
             hari_kebelakang = 7, bahasa = ascii ''id'', profil = None \<rparr>
   \<and> validate_AnalyzeRequest (sample_body\<lparr>pertanyaan_in := Some []\<rparr>)
     = Inr \<lparr> pertanyaan = [], tickers = None, kata_kunci = None,
             hari_kebelakang = 7, bahasa = ascii ''id'', profil = None \<rparr>
   \<and> validate_AnalyzeRequest
        (sample_body\<lparr>hari_kebelakang_in := Some 0, pertanyaan_in := Some (ascii ''Apa itu IHSG?'')\<rparr>)
     = Inl (RequestValidationError [''hari_kebelakang''])
   \<and> validate_AnalyzeRequest (sample_body\<lparr>hari_kebelakang_in := Some 0, pertanyaan_in := Some []\<rparr>)
     = Inl (RequestValidationError [''hari_kebelakang''])"
proof -
  have v: "validate_AnalyzeRequest (sample_body\<lparr>pertanyaan_in := Some (ascii ''Apa itu IHSG?'')\<rparr>)
     = Inr \<lparr> pertanyaan = ascii ''Apa itu IHSG?'', tickers = None, kata_kunci = None,
             hari_kebelakang = 7, bahasa = ascii ''id'', profil = None \<rparr>"
    by (simp add: validate_AnalyzeRequest_def sample_body_def)
  have w: "validate_AnalyzeRequest
        (sample_body\<lparr>hari_kebelakang_in := Some 0, pertanyaan_in := Some (ascii ''Apa itu IHSG?'')\<rparr>)
     = Inl (RequestValidationError [''hari_kebelakang''])"
    by (simp add: validate_AnalyzeRequest_def sample_body_def)
  from question_required
      [of "sample_body\<lparr>pertanyaan_in := None\<rparr>" "sample_env ok_response"
          "ascii ''Apa itu IHSG?''"
          "\<lparr> pertanyaan = ascii ''Apa itu IHSG?'', tickers = None, kata_kunci = None,
             hari_kebelakang = 7, bahasa = ascii ''id'', profil = None \<rparr>" "[]" e0,
       THEN conjunct1]
    question_required
      [of "sample_body\<lparr>pertanyaan_in := None\<rparr>" "sample_env ok_response"
          "ascii ''Apa itu IHSG?''"
          "\<lparr> pertanyaan = ascii ''Apa itu IHSG?'', tickers = None, kata_kunci = None,
             hari_kebelakang = 7, bahasa = ascii ''id'', profil = None \<rparr>" "[]" e0,
       THEN conjunct2, THEN conjunct1]
    question_required
      [of "sample_body\<lparr>hari_kebelakang_in := Some 0\<rparr>" "sample_env ok_response"
          "ascii ''Apa itu IHSG?''" r0 "[]" "RequestValidationError [''hari_kebelakang'']",
       THEN conjunct2, THEN conjunct2]
    v w
  show ?thesis
    by (simp add: post_analyze_def validate_AnalyzeRequest_def sample_body_def)
qed

text \<open>
  A request whose question is the empty string is not rejected: it passes the schema, the
  news client and the model are both called, and the route answers with a result.
\<close>

theorem empty_question_accepted_counterexample:
  "pertanyaan_in (sample_body\<lparr>pertanyaan_in := Some []\<rparr>) = Some []
   \<and> validate_AnalyzeRequest (sample_body\<lparr>pertanyaan_in := Some []\<rparr>)
     = Inr \<lparr> pertanyaan = [], tickers = None, kata_kunci = None,
             hari_kebelakang = 7, bahasa = ascii ''id'', profil = None \<rparr>
   \<and> news_queries (fst (post_analyze (sample_env ok_response)
                          (sample_body\<lparr>pertanyaan_in := Some []\<rparr>)))
     = [ascii ''ekonomi OR pasar saham OR IHSG'']
   \<and> length (gen_calls (fst (post_analyze (sample_env ok_response)
                                (sample_body\<lparr>pertanyaan_in := Some []\<rparr>)))) = 1
   \<and> \<not> client_error (snd (post_analyze (sample_env ok_response)
                                (sample_body\<lparr>pertanyaan_in := Some []\<rparr>)))
   \<and> snd (post_analyze (sample_env ok_response) (sample_body\<lparr>pertanyaan_in := Some []\<rparr>))
     = Inr \<lparr> resp_query = [],
             resp_news_query = ascii ''ekonomi OR pasar saham OR IHSG'',
             resp_articles_count = 1,
             resp_answer = ascii ''- a -'' @ [10] @ ascii ''-'',
             resp_disclaimer = ascii
  ''Konten untuk tujuan edukasi. Lakukan riset mandiri & konsultasi penasihat berizin.'' \<rparr>"
proof -
  let ?ev = "sample_env ok_response"
  have v: "validate_AnalyzeRequest (sample_body\<lparr>pertanyaan_in := Some []\<rparr>)
     = Inr \<lparr> pertanyaan = [], tickers = None, kata_kunci = None,
             hari_kebelakang = 7, bahasa = ascii ''id'', profil = None \<rparr>"
    by (simp add: validate_AnalyzeRequest_def sample_body_def)
  have f: "snd (fetch_news ?ev qs l d n)
     = Inr [\<lparr> judul = JStr (ascii ''Rupiah menguat''), sumber = JStr (ascii ''Kontan''),
              url = JStr (ascii ''https://example.com/a''),
              publishedAt = JStr (ascii ''2024-05-01T00:00:00Z''), ringkas = JStr [] \<rparr>]"
    for qs l d n
    by (simp add: fetch_news_def sample_env_def ok_response_def check_status_def
          normalize_articles_def normalize_article_def Let_def)
  have g: "generate_content ?ev x = Inr (ascii ''- a -'' @ [10] @ ascii ''-'')" for x
    by (simp add: sample_env_def)
  have a: "snd (analyze ?ev \<lparr> pertanyaan = [], tickers = None, kata_kunci = None,
             hari_kebelakang = 7, bahasa = ascii ''id'', profil = None \<rparr>)
     = Inr \<lparr> resp_query = [],
             resp_news_query = ascii ''ekonomi OR pasar saham OR IHSG'',
             resp_articles_count = 1,
             resp_answer = ascii ''- a -'' @ [10] @ ascii ''-'',
             resp_disclaimer = ascii
  ''Konten untuk tujuan edukasi. Lakukan riset mandiri & konsultasi penasihat berizin.'' \<rparr>"
    using f [of "ascii ''ekonomi OR pasar saham OR IHSG''" "ascii ''id''" 7 8]
    by (cases "fetch_news ?ev (ascii ''ekonomi OR pasar saham OR IHSG'') (ascii ''id'') 7 8")
       (simp add: analyze_def Let_def analyze_query_def g)
  have c: "length (gen_calls (fst (analyze ?ev \<lparr> pertanyaan = [], tickers = None,
             kata_kunci = None, hari_kebelakang = 7, bahasa = ascii ''id'', profil = None \<rparr>))) = 1"
    using f [of "ascii ''ekonomi OR pasar saham OR IHSG''" "ascii ''id''" 7 8]
      fst_fetch_news [of ?ev "ascii ''ekonomi OR pasar saham OR IHSG''" "ascii ''id''" 7 8]
    by (cases "fetch_news ?ev (ascii ''ekonomi OR pasar saham OR IHSG'') (ascii ''id'') 7 8")
       (simp add: analyze_def Let_def analyze_query_def)
  show ?thesis
    using a c
    by (simp add: v post_analyze_def news_queries_analyze analyze_query_fallback
          client_error_def)
qed

section \<open>The suggestion list\<close>

lemma split_on_not_Nil [simp]: "split_on c s \<noteq> []"
  by (induction s) (auto split: list.splits)

lemma str_join_split_on: "str_join [c] (split_on c s) = s"
proof (induction s)
  case Nil
  show ?case by simp
next
  case (Cons x xs)
  obtain l ls where sp: "split_on c xs = l # ls"
    by (cases "split_on c xs") simp_all
  with Cons show ?case
    by (cases ls) auto
qed

lemma split_on_no_separator: "l \<in> set (split_on c s) \<Longrightarrow> c \<notin> set l"
proof (induction s arbitrary: l)
  case Nil
  then show ?case by simp
next
  case (Cons x xs)
  obtain k ks where sp: "split_on c xs = k # ks"
    by (cases "split_on c xs") simp_all
  with Cons show ?case
    by (cases "x = c") auto
qed

lemma dropWhile_all_iff: "(\<forall>c\<in>set (dropWhile P s). P c) \<longleftrightarrow> dropWhile P s = []"
proof
  assume a: "\<forall>c\<in>set (dropWhile P s). P c"
  show "dropWhile P s = []"
  proof (rule ccontr)
    assume n: "dropWhile P s \<noteq> []"
    from n have "hd (dropWhile P s) \<in> set (dropWhile P s)"
      by (rule hd_in_set)
    with a have "P (hd (dropWhile P s))"
      by (rule bspec)
    moreover from n have "\<not> P (hd (dropWhile P s))"
      by (rule hd_dropWhile)
    ultimately show False
      by contradiction
  qed
next
  assume e: "dropWhile P s = []"
  show "\<forall>c\<in>set (dropWhile P s). P c"
    unfolding e by simp
qed

lemma strip_ws_empty_iff: "strip_ws s = [] \<longleftrightarrow> (\<forall>c\<in>set s. py_isspace c)"
proof -
  have "strip_ws s = [] \<longleftrightarrow> dropWhile py_isspace (rev (dropWhile py_isspace s)) = []"
    by (simp add: strip_ws_def)
  also have "\<dots> \<longleftrightarrow> (\<forall>c\<in>set (dropWhile py_isspace s). py_isspace c)"
    by (simp add: dropWhile_eq_Nil_conv)
  also have "\<dots> \<longleftrightarrow> dropWhile py_isspace s = []"
    by (rule dropWhile_all_iff)
  also have "\<dots> \<longleftrightarrow> (\<forall>c\<in>set s. py_isspace c)"
    by (simp add: dropWhile_eq_Nil_conv)
  finally show ?thesis .
qed

lemma last_dropWhile: "dropWhile P xs \<noteq> [] \<Longrightarrow> last (dropWhile P xs) = last xs"
  using takeWhile_dropWhile_id [of P xs] last_appendR [of "dropWhile P xs" "takeWhile P xs"]
  by simp

lemma strip_chars_split:
  "\<exists>pre post. s = pre @ strip_chars chars s @ post
      \<and> set pre \<subseteq> set chars \<and> set post \<subseteq> set chars"
proof -
  let ?P = "\<lambda>c. c \<in> set chars"
  let ?rest = "dropWhile ?P s"
  let ?post = "rev (takeWhile ?P (rev ?rest))"
  have "?rest = rev (takeWhile ?P (rev ?rest) @ dropWhile ?P (rev ?rest))"
    by (simp only: takeWhile_dropWhile_id rev_rev_ident)
  also have "\<dots> = rev (dropWhile ?P (rev ?rest)) @ ?post"
    by (rule rev_append)
  finally have rest: "strip_chars chars s @ ?post = ?rest"
    unfolding strip_chars_def by (rule sym)
  show ?thesis
  proof (intro exI conjI)
    show "s = takeWhile ?P s @ strip_chars chars s @ ?post"
      unfolding rest by (simp only: takeWhile_dropWhile_id)
    show "set (takeWhile ?P s) \<subseteq> set chars"
      by (auto dest: set_takeWhileD)
    show "set ?post \<subseteq> set chars"
      by (auto dest: set_takeWhileD)
  qed
qed

lemma strip_chars_ends:
  assumes "strip_chars chars s \<noteq> []"
  shows "hd (strip_chars chars s) \<notin> set chars \<and> last (strip_chars chars s) \<notin> set chars"
proof -
  let ?P = "\<lambda>c. c \<in> set chars"
  let ?rest = "dropWhile ?P s"
  let ?d = "dropWhile ?P (rev ?rest)"
  from assms have d: "?d \<noteq> []"
    by (simp add: strip_chars_def)
  have r: "?rest \<noteq> []"
  proof
    assume e: "?rest = []"
    have "?d = []"
      unfolding e by simp
    with d show False
      by contradiction
  qed
  have "last (strip_chars chars s) = hd ?d"
    using d by (simp add: strip_chars_def last_rev)
  moreover have "\<not> ?P (hd ?d)"
    using d by (rule hd_dropWhile)
  moreover have "hd (strip_chars chars s) = last ?d"
    using d by (simp add: strip_chars_def hd_rev)
  moreover have "last ?d = last (rev ?rest)"
    using d by (rule last_dropWhile)
  moreover have "last (rev ?rest) = hd ?rest"
    using r by (simp add: last_rev)
  moreover have "\<not> ?P (hd ?rest)"
    using r by (rule hd_dropWhile)
  ultimately show ?thesis
    by simp
qed

text \<open>
  Claim C9, as the code has it.  The suggestions are the lines of the model's text (the
  pieces between newlines), without the lines that are empty or hold white space only,
  each with the characters hyphen, bullet U+2022, space and newline removed from both its
  start and its end: what is removed is a prefix and a suffix made of those characters,
  and what remains, when it is not empty, neither starts nor ends with one of them.
\<close>

theorem suggestion_lines_stripped_both_ends:
  "suggestion_lines teks
     = map (strip_chars bullet_chars)
         (filter (\<lambda>s. \<exists>c\<in>set s. \<not> py_isspace c) (split_on 10 teks))
   \<and> str_join [10] (split_on 10 teks) = teks
   \<and> (\<forall>l\<in>set (split_on 10 teks). 10 \<notin> set l)
   \<and> set bullet_chars = {45, 8226, 32, 10}
   \<and> (\<exists>pre post. s = pre @ strip_chars bullet_chars s @ post
         \<and> set pre \<subseteq> {45, 8226, 32, 10} \<and> set post \<subseteq> {45, 8226, 32, 10})
   \<and> (strip_chars bullet_chars s \<noteq> []
        \<longrightarrow> hd (strip_chars bullet_chars s) \<notin> {45, 8226, 32, 10}
          \<and> last (strip_chars bullet_chars s) \<notin> {45, 8226, 32, 10})"
proof -
  have b: "set bullet_chars = {45, 8226, 32, 10}"
    by (auto simp add: bullet_chars_def)
  have "suggestion_lines teks
     = map (strip_chars bullet_chars)
         (filter (\<lambda>s. \<exists>c\<in>set s. \<not> py_isspace c) (split_on 10 teks))"
    by (simp add: suggestion_lines_def strip_ws_empty_iff)
  moreover have "\<forall>l\<in>set (split_on 10 teks). 10 \<notin> set l"
    using split_on_no_separator by blast
  moreover note str_join_split_on [of 10 teks] b
    strip_chars_split [of s bullet_chars, unfolded b]
    strip_chars_ends [of bullet_chars s, unfolded b]
  ultimately show ?thesis
    by blast
qed

theorem suggestion_lines_stripped_both_ends_witness:
  "suggestion_lines (ascii ''1. Apa itu IHSG? -'' @ [10, 10, 32, 8226, 32]
                      @ ascii ''Bagaimana inflasi?'' @ [9, 10, 32, 9])
     = [ascii ''1. Apa itu IHSG?'', ascii ''Bagaimana inflasi?'' @ [9]]
   \<and> strip_chars bullet_chars (ascii ''- a -'') = ascii ''a''"
  using suggestion_lines_stripped_both_ends
    [of "ascii ''1. Apa itu IHSG? -'' @ [10, 10, 32, 8226, 32]
           @ ascii ''Bagaimana inflasi?'' @ [9, 10, 32, 9]" "ascii ''- a -''"]
  by (simp add: strip_chars_def bullet_chars_def py_isspace_def ascii_def)

text \<open>
  On the text \<open>"- a -\n-"\<close> the claim as written fails twice: the trailing hyphen of the
  first line is stripped too, so the list differs from the one that strips leading bullet
  characters only, and the second line, which is not white space, is stripped to the
  empty string, which the list then holds.
\<close>

theorem suggestion_lines_counterexample:
  "suggestion_lines (ascii ''- a -'' @ [10] @ ascii ''-'') = [ascii ''a'', []]
   \<and> leading_stripped_lines (ascii ''- a -'' @ [10] @ ascii ''-'') = [ascii ''a -'', []]
   \<and> suggestion_lines (ascii ''- a -'' @ [10] @ ascii ''-'')
       \<noteq> leading_stripped_lines (ascii ''- a -'' @ [10] @ ascii ''-'')
   \<and> [] \<in> set (suggestion_lines (ascii ''- a -'' @ [10] @ ascii ''-''))"
  by (simp add: suggestion_lines_def leading_stripped_lines_def strip_chars_def strip_ws_def
        py_isspace_def bullet_chars_def ascii_def)

end
